theory Spec2Isabelle
  imports Complex_Main "HOL-Library.Word" "HOL-Library.Sublist" "HOL-Library.Code_Target_Numeral"
begin

section \<open>JavaScript values\<close>

text \<open>
  A JavaScript string is a sequence of 16-bit code units. \<open>str\<close> turns an ASCII literal
  of the source into such a sequence; the two non-ASCII characters of the templates are
  the bullet U+2022 and the degree sign U+00B0.
\<close>

type_synonym code_unit = "16 word"
type_synonym js_string = "code_unit list"

definition str :: "string \<Rightarrow> js_string" where
  "str s = map of_char s"

definition LF :: code_unit where
  "LF = 0x0A"

definition TAB :: code_unit where
  "TAB = 0x09"

definition bullet :: code_unit where
  "bullet = 0x2022"

definition degree :: code_unit where
  "degree = 0xB0"

text \<open>
  A number is modelled by its mathematical value. Every finite double is a rational;
  the rounding of arithmetic results to the nearest double, \<open>NaN\<close> and the infinities are
  outside the model.
\<close>

type_synonym js_number = rat

datatype js_value =
    Undefined
  | Null
  | Boolean bool
  | Number js_number
  | BigInt int
  | String js_string
  | Symbol
  | Function
  | Array "js_value list"
  | Object "(js_string \<times> js_value) list"

text \<open>The \<open>typeof\<close> operator.\<close>

fun typeof :: "js_value \<Rightarrow> string" where
  "typeof Undefined = ''undefined''"
| "typeof Null = ''object''"
| "typeof (Boolean b) = ''boolean''"
| "typeof (Number n) = ''number''"
| "typeof (BigInt n) = ''bigint''"
| "typeof (String s) = ''string''"
| "typeof Symbol = ''symbol''"
| "typeof Function = ''function''"
| "typeof (Array xs) = ''object''"
| "typeof (Object ps) = ''object''"

text \<open>Truthiness (the abstract operation ToBoolean).\<close>

fun truthy :: "js_value \<Rightarrow> bool" where
  "truthy Undefined = False"
| "truthy Null = False"
| "truthy (Boolean b) = b"
| "truthy (Number n) = (n \<noteq> 0)"
| "truthy (BigInt n) = (n \<noteq> 0)"
| "truthy (String s) = (s \<noteq> [])"
| "truthy Symbol = True"
| "truthy Function = True"
| "truthy (Array xs) = True"
| "truthy (Object ps) = True"

text \<open>
  Decimal digits of a natural number, most significant first, as the number-to-string
  conversions of the language produce them.
\<close>

definition digit :: "nat \<Rightarrow> code_unit" where
  "digit d = of_nat (48 + d)"

function nat_digits :: "nat \<Rightarrow> js_string" where
  "nat_digits n = (if n < 10 then [digit n] else nat_digits (n div 10) @ [digit (n mod 10)])"
  by pat_completeness auto
termination
  by (relation "measure id") auto

declare nat_digits.simps [simp del]

section \<open>String operations of the language\<close>

text \<open>
  \<open>String.prototype.trim\<close> removes the white space and line terminator code units of
  ECMAScript from both ends.
\<close>

definition is_white_space :: "code_unit \<Rightarrow> bool" where
  "is_white_space c =
     (c \<in> {0x09, 0x0A, 0x0B, 0x0C, 0x0D, 0x20, 0xA0, 0x1680, 0x2028, 0x2029, 0x202F,
            0x205F, 0x3000, 0xFEFF}
      \<or> (0x2000 \<le> c \<and> c \<le> 0x200A))"

definition trim_start :: "js_string \<Rightarrow> js_string" where
  "trim_start s = dropWhile is_white_space s"

definition trim_end :: "js_string \<Rightarrow> js_string" where
  "trim_end s = rev (dropWhile is_white_space (rev s))"

definition trim :: "js_string \<Rightarrow> js_string" where
  "trim s = trim_end (trim_start s)"

text \<open>The lines of a text: \<open>split('\n')\<close>.\<close>

fun split_lines :: "js_string \<Rightarrow> js_string \<Rightarrow> js_string list" where
  "split_lines acc [] = [rev acc]"
| "split_lines acc (c # cs) =
     (if c = LF then rev acc # split_lines [] cs else split_lines (c # acc) cs)"

definition lines_of :: "js_string \<Rightarrow> js_string list" where
  "lines_of s = split_lines [] s"

section \<open>Numbers as strings\<close>

text \<open>
  \<open>Number.prototype.toFixed(1)\<close>, following ECMAScript step by step: the sign is split
  off, \<open>n\<close> is the integer for which \<open>n / 10 - x\<close> is closest to zero (the larger one on a
  tie), its digits are padded to two and the point is put before the last digit. From
  \<open>10^21\<close> on the result is that of the number-to-string conversion.
\<close>

fun frac_digits :: "nat \<Rightarrow> rat \<Rightarrow> js_string" where
  "frac_digits 0 f = []"
| "frac_digits (Suc k) f =
     (if f = 0 then []
      else digit (nat \<lfloor>f * 10\<rfloor>) # frac_digits k (f * 10 - of_int \<lfloor>f * 10\<rfloor>))"

definition decimal_notation :: "rat \<Rightarrow> js_string" where
  "decimal_notation x =
     nat_digits (nat \<lfloor>x\<rfloor>)
     @ (if frac x = 0 then [] else str ''.'' @ frac_digits 1074 (frac x))"

fun leading_zeros :: "nat \<Rightarrow> rat \<Rightarrow> nat" where
  "leading_zeros 0 x = 0"
| "leading_zeros (Suc k) x = (if 1 \<le> x then 0 else Suc (leading_zeros k (x * 10)))"

definition exponent_notation :: "rat \<Rightarrow> js_string" where
  "exponent_notation x =
     (if 1 \<le> x
      then (let e = length (nat_digits (nat \<lfloor>x\<rfloor>)) - 1
            in decimal_notation (x / 10 ^ e) @ str ''e+'' @ nat_digits e)
      else (let e = leading_zeros 1074 x
            in decimal_notation (x * 10 ^ e) @ str ''e-'' @ nat_digits e))"

text \<open>
  \<open>Number::toString\<close> in radix 10, on the mathematical value: the digits are those of the
  exact decimal expansion (at most 1074 places after the point, which covers every
  double). For a decimal of up to 15 significant digits this is what the language prints
  for the double nearest to it; the shortest-round-trip choice of digits for other
  doubles is outside the model.
\<close>

definition Number_toString :: "js_number \<Rightarrow> js_string" where
  "Number_toString x =
     (if x = 0 then str ''0''
      else (if x < 0 then str ''-'' else [])
        @ (if 10 ^ 21 \<le> \<bar>x\<bar> \<or> \<bar>x\<bar> < 1 / 10 ^ 6 then exponent_notation \<bar>x\<bar>
           else decimal_notation \<bar>x\<bar>))"

definition toFixed1 :: "js_number \<Rightarrow> js_string" where
  "toFixed1 x =
     (let s = (if x < 0 then str ''-'' else []);
          x = (if x < 0 then - x else x)
      in if 10 ^ 21 \<le> x then s @ Number_toString x
         else
           (let n = nat \<lfloor>x * 10 + 1 / 2\<rfloor>;
                m = nat_digits n;
                m = (if length m \<le> 1 then replicate (2 - length m) (digit 0) @ m else m);
                k = length m
            in s @ take (k - 1) m @ str ''.'' @ drop (k - 1) m))"

text \<open>
  Property access on an object value. The property list of an \<open>Object\<close> holds every
  property the program can observe on it, own or inherited.
\<close>

fun has_property :: "js_string \<Rightarrow> js_value \<Rightarrow> bool" where
  "has_property k (Object ps) = (map_of ps k \<noteq> None)"
| "has_property k (Array xs) =
     (k = str ''length'' \<or> k \<in> set (map nat_digits [0..<length xs]))"
| "has_property k v = False"

fun get_property :: "js_value \<Rightarrow> js_string \<Rightarrow> js_value" where
  "get_property (Object ps) k = (case map_of ps k of Some v \<Rightarrow> v | None \<Rightarrow> Undefined)"
| "get_property v k = Undefined"

section \<open>Error normalisation\<close>

text \<open>
  \<open>getErrorMessage\<close> (both source files carry the same function). The result is the
  message together with the calls made to \<open>console.error\<close>, each call being the list of
  its arguments.
\<close>

type_synonym console = "js_value list list"

definition unknown_error :: "js_value \<Rightarrow> js_string \<times> console" where
  "unknown_error error =
     (str ''Unknown Error'',
      [[String (str ''Unable to get error message for error''), error]])"

fun getErrorMessage :: "js_value \<Rightarrow> js_string \<times> console" where
  "getErrorMessage (String s) = (s, [])"
| "getErrorMessage error =
     (if truthy error \<and> typeof error = ''object'' \<and> has_property (str ''message'') error
      then (case get_property error (str ''message'') of
              String m \<Rightarrow> (m, [])
            | _ \<Rightarrow> unknown_error error)
      else unknown_error error)"

section \<open>Condition codes\<close>

text \<open>
  The table of \<open>getWeatherDescription\<close>. A number used as a property key is converted to
  its canonical string, which is the string of a table key exactly when the number
  equals that key, so the lookup is by numeric equality.
\<close>

definition weatherCodes :: "(js_number \<times> js_string) list" where
  "weatherCodes =
    [(0, str ''Clear sky''),
     (1, str ''Mainly clear''),
     (2, str ''Partly cloudy''),
     (3, str ''Overcast''),
     (45, str ''Foggy''),
     (48, str ''Depositing rime fog''),
     (51, str ''Light drizzle''),
     (53, str ''Moderate drizzle''),
     (55, str ''Dense drizzle''),
     (56, str ''Light freezing drizzle''),
     (57, str ''Dense freezing drizzle''),
     (61, str ''Slight rain''),
     (63, str ''Moderate rain''),
     (65, str ''Heavy rain''),
     (66, str ''Light freezing rain''),
     (67, str ''Heavy freezing rain''),
     (71, str ''Slight snow fall''),
     (73, str ''Moderate snow fall''),
     (75, str ''Heavy snow fall''),
     (77, str ''Snow grains''),
     (80, str ''Slight rain showers''),
     (81, str ''Moderate rain showers''),
     (82, str ''Violent rain showers''),
     (85, str ''Slight snow showers''),
     (86, str ''Heavy snow showers''),
     (95, str ''Thunderstorm''),
     (96, str ''Thunderstorm with slight hail''),
     (99, str ''Thunderstorm with heavy hail'')]"

text \<open>\<open>weatherCodes[code] || 'Unknown'\<close>: a missing key and an empty string both fall back.\<close>

definition getWeatherDescription :: "js_number \<Rightarrow> js_string" where
  "getWeatherDescription code =
     (case map_of weatherCodes code of
        Some d \<Rightarrow> if d \<noteq> [] then d else str ''Unknown''
      | None \<Rightarrow> str ''Unknown'')"

section \<open>Schema validation\<close>

text \<open>
  The schemas are built from \<open>z.number()\<close>, \<open>z.string()\<close>, \<open>z.object(...)\<close> and
  \<open>.optional()\<close>. A parse either returns the typed data or fails with the list of issues
  found; \<open>z.object\<close> accepts plain objects only, reads each key of its shape from the
  input and reports the issues of all keys.
\<close>

datatype zod_issue = InvalidType "js_string list" string js_value

type_synonym 'a parsed = "zod_issue list + 'a"

fun both :: "'a parsed \<Rightarrow> 'b parsed \<Rightarrow> ('a \<times> 'b) parsed" where
  "both (Inr a) (Inr b) = Inr (a, b)"
| "both (Inl e) (Inr b) = Inl e"
| "both (Inr a) (Inl e) = Inl e"
| "both (Inl e) (Inl e') = Inl (e @ e')"

definition z_number :: "js_string list \<Rightarrow> js_value \<Rightarrow> js_number parsed" where
  "z_number path v = (case v of Number n \<Rightarrow> Inr n | _ \<Rightarrow> Inl [InvalidType path ''number'' v])"

definition z_string :: "js_string list \<Rightarrow> js_value \<Rightarrow> js_string parsed" where
  "z_string path v = (case v of String s \<Rightarrow> Inr s | _ \<Rightarrow> Inl [InvalidType path ''string'' v])"

definition z_optional ::
  "(js_string list \<Rightarrow> js_value \<Rightarrow> 'a parsed) \<Rightarrow> js_string list \<Rightarrow> js_value \<Rightarrow> 'a option parsed" where
  "z_optional schema path v =
     (case v of Undefined \<Rightarrow> Inr None | _ \<Rightarrow> map_sum id Some (schema path v))"

definition z_object ::
  "(js_string list \<Rightarrow> js_value \<Rightarrow> 'a parsed) \<Rightarrow> js_string list \<Rightarrow> js_value \<Rightarrow> 'a parsed" where
  "z_object shape path v =
     (case v of Object ps \<Rightarrow> shape path v | _ \<Rightarrow> Inl [InvalidType path ''object'' v])"

definition z_key ::
  "(js_string list \<Rightarrow> js_value \<Rightarrow> 'a parsed) \<Rightarrow> string \<Rightarrow> js_string list \<Rightarrow> js_value \<Rightarrow> 'a parsed" where
  "z_key schema key path v = schema (path @ [str key]) (get_property v (str key))"

subsection \<open>\<open>weatherResultSchema\<close> and \<open>nominatimResponseSchema\<close> (index.ts)\<close>

record current_weather =
  temperature_2m :: js_number
  relative_humidity_2m :: js_number
  wind_speed_10m :: js_number
  weather_code :: js_number

record weather_result =
  current :: current_weather

definition current_shape :: "js_string list \<Rightarrow> js_value \<Rightarrow> current_weather parsed" where
  "current_shape path v =
     (case both (z_key z_number ''temperature_2m'' path v)
            (both (z_key z_number ''relative_humidity_2m'' path v)
              (both (z_key z_number ''wind_speed_10m'' path v)
                    (z_key z_number ''weather_code'' path v))) of
        Inl issues \<Rightarrow> Inl issues
      | Inr (t, h, w, c) \<Rightarrow>
          Inr \<lparr>temperature_2m = t, relative_humidity_2m = h, wind_speed_10m = w,
               weather_code = c\<rparr>)"

definition weatherResultSchema :: "js_string list \<Rightarrow> js_value \<Rightarrow> weather_result parsed" where
  "weatherResultSchema =
     z_object (\<lambda>path v. map_sum id (\<lambda>c. \<lparr>current = c\<rparr>)
                 (z_key (z_object current_shape) ''current'' path v))"

record nominatim_address =
  address_city :: "js_string option"
  address_town :: "js_string option"
  address_village :: "js_string option"
  address_country :: "js_string option"

record nominatim_response =
  address :: "nominatim_address option"

definition address_shape :: "js_string list \<Rightarrow> js_value \<Rightarrow> nominatim_address parsed" where
  "address_shape path v =
     (case both (z_key (z_optional z_string) ''city'' path v)
            (both (z_key (z_optional z_string) ''town'' path v)
              (both (z_key (z_optional z_string) ''village'' path v)
                    (z_key (z_optional z_string) ''country'' path v))) of
        Inl issues \<Rightarrow> Inl issues
      | Inr (c, t, v, n) \<Rightarrow> Inr \<lparr>address_city = c, address_town = t, address_village = v, address_country = n\<rparr>)"

definition nominatimResponseSchema ::
  "js_string list \<Rightarrow> js_value \<Rightarrow> nominatim_response parsed" where
  "nominatimResponseSchema =
     z_object (\<lambda>path v. map_sum id (\<lambda>a. \<lparr>address = a\<rparr>)
                 (z_key (z_optional (z_object address_shape)) ''address'' path v))"

subsection \<open>\<open>accuWeatherLocationSchema\<close> and \<open>accuWeatherCurrentConditionsSchema\<close>\<close>

record accu_country =
  Country_LocalizedName :: js_string

record accu_location =
  Key :: js_string
  LocalizedName :: js_string
  Country :: accu_country

definition accuWeatherLocationSchema ::
  "js_string list \<Rightarrow> js_value \<Rightarrow> accu_location parsed" where
  "accuWeatherLocationSchema =
     z_object (\<lambda>path v.
       case both (z_key z_string ''Key'' path v)
              (both (z_key z_string ''LocalizedName'' path v)
                    (z_key (z_object (\<lambda>path v.
                        map_sum id (\<lambda>n. \<lparr>Country_LocalizedName = n\<rparr>)
                          (z_key z_string ''LocalizedName'' path v))) ''Country'' path v)) of
         Inl issues \<Rightarrow> Inl issues
       | Inr (k, n, c) \<Rightarrow> Inr \<lparr>Key = k, LocalizedName = n, Country = c\<rparr>)"

record measurement =
  Value :: js_number
  Unit :: js_string

record measurements =
  Metric :: measurement
  Imperial :: measurement

record accu_wind =
  Speed :: measurements

record current_conditions =
  WeatherText :: js_string
  Temperature :: measurements
  RelativeHumidity :: "js_number option"
  Wind :: "accu_wind option"

definition measurement_shape :: "js_string list \<Rightarrow> js_value \<Rightarrow> measurement parsed" where
  "measurement_shape path v =
     (case both (z_key z_number ''Value'' path v) (z_key z_string ''Unit'' path v) of
        Inl issues \<Rightarrow> Inl issues
      | Inr (x, u) \<Rightarrow> Inr \<lparr>Value = x, Unit = u\<rparr>)"

definition measurements_shape :: "js_string list \<Rightarrow> js_value \<Rightarrow> measurements parsed" where
  "measurements_shape path v =
     (case both (z_key (z_object measurement_shape) ''Metric'' path v)
                (z_key (z_object measurement_shape) ''Imperial'' path v) of
        Inl issues \<Rightarrow> Inl issues
      | Inr (m, i) \<Rightarrow> Inr \<lparr>Metric = m, Imperial = i\<rparr>)"

definition wind_shape :: "js_string list \<Rightarrow> js_value \<Rightarrow> accu_wind parsed" where
  "wind_shape path v =
     map_sum id (\<lambda>s. \<lparr>Speed = s\<rparr>) (z_key (z_object measurements_shape) ''Speed'' path v)"

definition accuWeatherCurrentConditionsSchema ::
  "js_string list \<Rightarrow> js_value \<Rightarrow> current_conditions parsed" where
  "accuWeatherCurrentConditionsSchema =
     z_object (\<lambda>path v.
       case both (z_key z_string ''WeatherText'' path v)
              (both (z_key (z_object measurements_shape) ''Temperature'' path v)
                (both (z_key (z_optional z_number) ''RelativeHumidity'' path v)
                      (z_key (z_optional (z_object wind_shape)) ''Wind'' path v))) of
         Inl issues \<Rightarrow> Inl issues
       | Inr (t, m, h, w) \<Rightarrow>
           Inr \<lparr>WeatherText = t, Temperature = m, RelativeHumidity = h, Wind = w\<rparr>)"

section \<open>The environment of a tool invocation\<close>

text \<open>
  Every \<open>await fetch(url)\<close> of the handlers is followed by \<open>await response.json()\<close>. The
  pair is one request to a provider: it either throws or yields the JSON value of the
  response body. The requests made are recorded in the order of the calls, with the
  values interpolated into the URL as arguments.
\<close>

datatype request =
    NominatimReverse js_number js_number
  | OpenMeteoForecast js_number js_number
  | OpenMeteoGeocoding js_string
  | AccuGeopositionSearch js_string js_number js_number
  | AccuCurrentConditions js_string js_string

text \<open>
  What the handlers take from outside the repository: the providers' answers, the error
  value the schema library throws for a list of issues, and the \<open>TypeError\<close> of the
  engine for a property read on \<open>null\<close> or \<open>undefined\<close>.
\<close>

record host =
  fetch_json :: "request \<Rightarrow> js_value + js_value"
  ZodError :: "zod_issue list \<Rightarrow> js_value"
  TypeError :: js_value

text \<open>
  The result of a tool call. The success results of the source carry no \<open>isError\<close> key,
  which the protocol reads as \<open>false\<close>; \<open>content\<close> always holds one text item.
\<close>

record tool_result =
  isError :: bool
  content_text :: js_string

record run =
  result :: tool_result
  requests :: "request list"
  console_output :: console

text \<open>
  The values \<open>'celsius'\<close> and \<open>'fahrenheit'\<close> of the \<open>unit\<close> parameter; the schema has
  applied the default before the handler runs.
\<close>

datatype temperature_unit = Celsius | Fahrenheit

text \<open>
  \<open>invariant(condition, message)\<close> of \<open>@epic-web/invariant\<close> throws an error object whose
  \<open>message\<close> is the given one when the condition is falsy.
\<close>

definition InvariantError :: "js_string \<Rightarrow> js_value" where
  "InvariantError message = Object [(str ''message'', String message)]"

definition as_number :: "js_value \<Rightarrow> js_number option" where
  "as_number v = (case v of Number n \<Rightarrow> Some n | _ \<Rightarrow> None)"

text \<open>The \<open>catch\<close> block of the handlers in index.ts and in the AccuWeather variant.\<close>

definition catch_error :: "(js_value + tool_result) \<times> request list \<Rightarrow> run" where
  "catch_error outcome =
     (case outcome of
        (Inr r, reqs) \<Rightarrow> \<lparr>result = r, requests = reqs, console_output = []\<rparr>
      | (Inl error, reqs) \<Rightarrow>
          (case getErrorMessage error of
             (message, output) \<Rightarrow>
               \<lparr>result = \<lparr>isError = True, content_text = message\<rparr>,
                requests = reqs, console_output = output\<rparr>))"

section \<open>The Open-Meteo coordinate variant (index.ts)\<close>

text \<open>\<open>a || b\<close> on an optional string: an absent and an empty string are both falsy.\<close>

definition or_else :: "js_string option \<Rightarrow> js_string \<Rightarrow> js_string" where
  "or_else a b = (case a of Some s \<Rightarrow> if s \<noteq> [] then s else b | None \<Rightarrow> b)"

definition reverseGeocode ::
  "host \<Rightarrow> js_number \<Rightarrow> js_number \<Rightarrow> (js_value + js_string \<times> js_string) \<times> request list" where
  "reverseGeocode h latitude longitude =
     (let req = NominatimReverse latitude longitude
      in (case fetch_json h req of
            Inl thrown \<Rightarrow> Inl thrown
          | Inr json \<Rightarrow>
              (case nominatimResponseSchema [] json of
                 Inl issues \<Rightarrow> Inl (ZodError h issues)
               | Inr data \<Rightarrow>
                   Inr (or_else (Option.bind (address data) address_city)
                          (or_else (Option.bind (address data) address_town)
                            (or_else (Option.bind (address data) address_village)
                               (str ''Unknown location''))),
                        or_else (Option.bind (address data) address_country)
                          (str ''Unknown country''))),
          [req]))"

definition celsiusToFahrenheit :: "js_number \<Rightarrow> js_number" where
  "celsiusToFahrenheit celsius = (celsius * 9) / 5 + 32"

text \<open>The lines of the template literals, shared by the variants where they agree.\<close>

definition header_line :: "js_string \<Rightarrow> js_string \<Rightarrow> js_string" where
  "header_line city country = str ''Weather in '' @ city @ str '', '' @ country @ str '':''"

definition temperature_line :: "js_number \<Rightarrow> temperature_unit \<Rightarrow> js_string" where
  "temperature_line temperature unit =
     [bullet] @ str '' Temperature: '' @ toFixed1 temperature @ [degree]
     @ (if unit = Fahrenheit then str ''F'' else str ''C'')"

definition humidity_bullet :: "js_number \<Rightarrow> js_string" where
  "humidity_bullet humidity =
     [bullet] @ str '' Humidity: '' @ Number_toString humidity @ str ''%''"

definition wind_bullet :: "js_number \<Rightarrow> js_string \<Rightarrow> js_string" where
  "wind_bullet speed u =
     [bullet] @ str '' Wind Speed: '' @ Number_toString speed @ str '' '' @ u"

definition conditions_line :: "js_string \<Rightarrow> js_string" where
  "conditions_line description = [bullet] @ str '' Conditions: '' @ description"

definition getWeather_temperature :: "weather_result \<Rightarrow> temperature_unit \<Rightarrow> js_number" where
  "getWeather_temperature weatherData unit =
     (if unit = Fahrenheit then celsiusToFahrenheit (temperature_2m (current weatherData))
      else temperature_2m (current weatherData))"

definition getWeather_text ::
  "js_string \<Rightarrow> js_string \<Rightarrow> weather_result \<Rightarrow> temperature_unit \<Rightarrow> js_string" where
  "getWeather_text city country weatherData unit =
     (let temperature = getWeather_temperature weatherData unit;
          weatherDescription = getWeatherDescription (weather_code (current weatherData))
      in trim ([LF] @ header_line city country @ [LF]
               @ temperature_line temperature unit @ [LF]
               @ humidity_bullet (relative_humidity_2m (current weatherData)) @ [LF]
               @ wind_bullet (wind_speed_10m (current weatherData)) (str ''km/h'') @ [LF]
               @ conditions_line weatherDescription @ [LF]
               @ replicate 8 TAB))"

text \<open>
  The guard \<open>!weatherData?.current\<close>: after a successful parse \<open>weatherData.current\<close> is the
  validated object.
\<close>

definition current_object :: "current_weather \<Rightarrow> js_value" where
  "current_object c =
     Object [(str ''temperature_2m'', Number (temperature_2m c)),
             (str ''relative_humidity_2m'', Number (relative_humidity_2m c)),
             (str ''wind_speed_10m'', Number (wind_speed_10m c)),
             (str ''weather_code'', Number (weather_code c))]"

definition current_missing :: "weather_result \<Rightarrow> bool" where
  "current_missing weatherData = (\<not> truthy (current_object (current weatherData)))"

text \<open>The first part of the handler: both requests and the validation of the weather data.\<close>

definition getWeather_data ::
  "host \<Rightarrow> js_number \<Rightarrow> js_number
   \<Rightarrow> (js_value + js_string \<times> js_string \<times> weather_result) \<times> request list" where
  "getWeather_data h latitude longitude =
     (case reverseGeocode h latitude longitude of
        (Inl thrown, reqs) \<Rightarrow> (Inl thrown, reqs)
      | (Inr (city, country), reqs) \<Rightarrow>
          (let req = OpenMeteoForecast latitude longitude
           in (case fetch_json h req of
                 Inl thrown \<Rightarrow> Inl thrown
               | Inr weatherJson \<Rightarrow>
                   (case weatherResultSchema [] weatherJson of
                      Inl issues \<Rightarrow> Inl (ZodError h issues)
                    | Inr weatherData \<Rightarrow> Inr (city, country, weatherData)),
               reqs @ [req])))"

text \<open>The body of the \<open>try\<close> block: the data, the guard, and the formatting step.\<close>

definition getWeather_body ::
  "host \<Rightarrow> js_number \<Rightarrow> js_number \<Rightarrow> temperature_unit
   \<Rightarrow> (js_value + tool_result) \<times> request list" where
  "getWeather_body h latitude longitude unit =
     (case getWeather_data h latitude longitude of
        (Inl thrown, reqs) \<Rightarrow> (Inl thrown, reqs)
      | (Inr (city, country, weatherData), reqs) \<Rightarrow>
          (if current_missing weatherData
           then Inr \<lparr>isError = True,
                    content_text =
                      str ''Weather data not available or invalid API response''\<rparr>
           else Inr \<lparr>isError = False,
                    content_text = getWeather_text city country weatherData unit\<rparr>,
           reqs))"

definition getWeather :: "host \<Rightarrow> js_number \<Rightarrow> js_number \<Rightarrow> temperature_unit \<Rightarrow> run" where
  "getWeather h latitude longitude unit =
     catch_error (getWeather_body h latitude longitude unit)"

section \<open>The AccuWeather variant\<close>

record Env =
  ACCUWEATHER_API_KEY :: "js_string option"

text \<open>
  The inbound request kept in \<open>requestStorage\<close>: its \<open>cf\<close> property (\<open>Undefined\<close> when
  there is none) and its \<open>CF-IPCountry\<close> header.
\<close>

record inbound_request =
  cf :: js_value
  CF_IPCountry :: "js_string option"

text \<open>\<open>requestStorage.getStore()?.cf?.[key]\<close>\<close>

definition ambient :: "inbound_request option \<Rightarrow> string \<Rightarrow> js_value" where
  "ambient store key =
     (case store of
        None \<Rightarrow> Undefined
      | Some request \<Rightarrow>
          (case cf request of
             Undefined \<Rightarrow> Undefined
           | Null \<Rightarrow> Undefined
           | c \<Rightarrow> get_property c (str key)))"

text \<open>\<open>latitude ?? requestStorage.getStore()?.cf?.latitude\<close>, and the same for the longitude.\<close>

definition coordinate :: "js_number option \<Rightarrow> inbound_request option \<Rightarrow> string \<Rightarrow> js_value" where
  "coordinate given store key = (case given of Some n \<Rightarrow> Number n | None \<Rightarrow> ambient store key)"

definition getLocationKey ::
  "host \<Rightarrow> js_number \<Rightarrow> js_number \<Rightarrow> js_string
   \<Rightarrow> (js_value + js_string \<times> js_string \<times> js_string) \<times> request list" where
  "getLocationKey h latitude longitude apiKey =
     (let req = AccuGeopositionSearch apiKey latitude longitude
      in (case fetch_json h req of
            Inl thrown \<Rightarrow> Inl thrown
          | Inr json \<Rightarrow>
              (case accuWeatherLocationSchema [] json of
                 Inl issues \<Rightarrow> Inl (ZodError h issues)
               | Inr data \<Rightarrow>
                   Inr (Key data, LocalizedName data, Country_LocalizedName (Country data))),
          [req]))"

text \<open>\<open>data[0]\<close> on the JSON value of the response.\<close>

definition first_element :: "host \<Rightarrow> js_value \<Rightarrow> js_value + js_value" where
  "first_element h data =
     (case data of
        Undefined \<Rightarrow> Inl (TypeError h)
      | Null \<Rightarrow> Inl (TypeError h)
      | Array xs \<Rightarrow> Inr (case xs of [] \<Rightarrow> Undefined | x # _ \<Rightarrow> x)
      | String s \<Rightarrow> Inr (case s of [] \<Rightarrow> Undefined | c # _ \<Rightarrow> String [c])
      | v \<Rightarrow> Inr (get_property v (str ''0'')))"

definition getCurrentConditions ::
  "host \<Rightarrow> js_string \<Rightarrow> js_string \<Rightarrow> (js_value + current_conditions) \<times> request list" where
  "getCurrentConditions h locationKey apiKey =
     (let req = AccuCurrentConditions locationKey apiKey
      in (case fetch_json h req of
            Inl thrown \<Rightarrow> Inl thrown
          | Inr data \<Rightarrow>
              (case first_element h data of
                 Inl thrown \<Rightarrow> Inl thrown
               | Inr x \<Rightarrow>
                   (case accuWeatherCurrentConditionsSchema [] x of
                      Inl issues \<Rightarrow> Inl (ZodError h issues)
                    | Inr weatherData \<Rightarrow> Inr weatherData)),
          [req]))"

definition accuweather_temperature :: "current_conditions \<Rightarrow> temperature_unit \<Rightarrow> js_number" where
  "accuweather_temperature weatherData unit =
     (if unit = Fahrenheit then Value (Imperial (Temperature weatherData))
      else Value (Metric (Temperature weatherData)))"

text \<open>
  The two conditional lines of the template:
  \<open>weatherData.RelativeHumidity ? `...` : ''\<close> and \<open>weatherData.Wind ? `...` : ''\<close>.
\<close>

definition humidity_line :: "current_conditions \<Rightarrow> js_string" where
  "humidity_line weatherData =
     (case RelativeHumidity weatherData of
        None \<Rightarrow> []
      | Some humidity \<Rightarrow>
          if truthy (Number humidity) then humidity_bullet humidity else [])"

definition wind_line :: "current_conditions \<Rightarrow> js_string" where
  "wind_line weatherData =
     (case Wind weatherData of
        None \<Rightarrow> []
      | Some wind \<Rightarrow>
          wind_bullet (Value (Metric (Speed wind))) (Unit (Metric (Speed wind))))"

definition accuweather_text ::
  "js_string \<Rightarrow> js_string \<Rightarrow> current_conditions \<Rightarrow> temperature_unit \<Rightarrow> js_string" where
  "accuweather_text city country weatherData unit =
     (let temperature = accuweather_temperature weatherData unit
      in trim ([LF] @ header_line city country @ [LF]
               @ temperature_line temperature unit @ [LF]
               @ humidity_line weatherData @ [LF]
               @ wind_line weatherData @ [LF]
               @ conditions_line (WeatherText weatherData) @ [LF]
               @ replicate 8 TAB))"

text \<open>
  The first part of the handler: the coordinates, the API key and the two requests.
\<close>

definition accuweather_data ::
  "host \<Rightarrow> Env \<Rightarrow> inbound_request option \<Rightarrow> js_number option \<Rightarrow> js_number option
   \<Rightarrow> (js_value + js_string \<times> js_string \<times> current_conditions) \<times> request list" where
  "accuweather_data h env store latitude longitude =
     (let lat = coordinate latitude store ''latitude'';
          long = coordinate longitude store ''longitude''
      in case as_number lat of
           None \<Rightarrow>
             (Inl (InvariantError (str ''Latitude is required and could not be found'')), [])
         | Some lat \<Rightarrow>
             (case as_number long of
                None \<Rightarrow>
                  (Inl (InvariantError (str ''Longitude is required and could not be found'')),
                   [])
              | Some long \<Rightarrow>
                  (case ACCUWEATHER_API_KEY env of
                     None \<Rightarrow> (Inl (InvariantError (str ''ACCUWEATHER_API_KEY is required'')), [])
                   | Some apiKey \<Rightarrow>
                       if \<not> truthy (String apiKey)
                       then (Inl (InvariantError (str ''ACCUWEATHER_API_KEY is required'')), [])
                       else
                         (case getLocationKey h lat long apiKey of
                            (Inl thrown, reqs) \<Rightarrow> (Inl thrown, reqs)
                          | (Inr (locationKey, city, country), reqs) \<Rightarrow>
                              (case getCurrentConditions h locationKey apiKey of
                                 (Inl thrown, reqs') \<Rightarrow> (Inl thrown, reqs @ reqs')
                               | (Inr weatherData, reqs') \<Rightarrow>
                                   (Inr (city, country, weatherData), reqs @ reqs'))))))"

text \<open>The body of the \<open>try\<close> block: the data and the formatting step.\<close>

definition accuweather_body ::
  "host \<Rightarrow> Env \<Rightarrow> inbound_request option \<Rightarrow> js_number option \<Rightarrow> js_number option
   \<Rightarrow> temperature_unit \<Rightarrow> (js_value + tool_result) \<times> request list" where
  "accuweather_body h env store latitude longitude unit =
     (case accuweather_data h env store latitude longitude of
        (Inl thrown, reqs) \<Rightarrow> (Inl thrown, reqs)
      | (Inr (city, country, weatherData), reqs) \<Rightarrow>
          (Inr \<lparr>isError = False,
                content_text = accuweather_text city country weatherData unit\<rparr>,
           reqs))"

definition getWeather_accuweather ::
  "host \<Rightarrow> Env \<Rightarrow> inbound_request option \<Rightarrow> js_number option \<Rightarrow> js_number option
   \<Rightarrow> temperature_unit \<Rightarrow> run" where
  "getWeather_accuweather h env store latitude longitude unit =
     catch_error (accuweather_body h env store latitude longitude unit)"

section \<open>The country variant\<close>

text \<open>
  The JSON of both responses is cast to the interfaces \<open>GeocodingResult\<close> and
  \<open>WeatherResult\<close> without validation; the data is modelled as those interfaces declare
  it, with \<open>results\<close> and \<open>current\<close> optional as the handler tests them. Only the fields the
  handler reads are kept.
\<close>

record geocoding_entry =
  result_name :: js_string
  result_latitude :: js_number
  result_longitude :: js_number
  result_country :: js_string

record GeocodingResult =
  results :: "geocoding_entry list option"

record WeatherResult =
  current_block :: "current_weather option"

record country_host =
  geocoding_json :: "js_string \<Rightarrow> js_value + GeocodingResult"
  forecast_json :: "js_number \<Rightarrow> js_number \<Rightarrow> js_value + WeatherResult"

definition country_text :: "geocoding_entry \<Rightarrow> current_weather \<Rightarrow> js_string" where
  "country_text entry c =
     (let weatherDescription = getWeatherDescription (weather_code c)
      in header_line (result_name entry) (result_country entry) @ [LF]
         @ [bullet] @ str '' Temperature: '' @ Number_toString (temperature_2m c)
         @ [degree] @ str ''C'' @ [LF]
         @ humidity_bullet (relative_humidity_2m c) @ [LF]
         @ wind_bullet (wind_speed_10m c) (str ''km/h'') @ [LF]
         @ conditions_line weatherDescription)"

text \<open>
  This handler has no \<open>try\<close> block: a failure of a request leaves it as a thrown value
  (\<open>Inl\<close>).
\<close>

text \<open>\<open>country ??= request?.headers.get('CF-IPCountry') ?? undefined\<close>\<close>

definition resolved_country :: "js_string option \<Rightarrow> inbound_request option \<Rightarrow> js_string option" where
  "resolved_country given store =
     (case given of
        Some c \<Rightarrow> Some c
      | None \<Rightarrow> (case store of None \<Rightarrow> None | Some request \<Rightarrow> CF_IPCountry request))"

definition getWeather_country ::
  "country_host \<Rightarrow> inbound_request option \<Rightarrow> js_string option
   \<Rightarrow> (js_value + tool_result) \<times> request list" where
  "getWeather_country h store country =
     (let country = resolved_country country store
      in case country of
           None \<Rightarrow> (Inr \<lparr>isError = True, content_text = str ''Country not detected''\<rparr>, [])
         | Some country \<Rightarrow>
             if \<not> truthy (String country)
             then (Inr \<lparr>isError = True, content_text = str ''Country not detected''\<rparr>, [])
             else
               (case geocoding_json h country of
                  Inl thrown \<Rightarrow> (Inl thrown, [OpenMeteoGeocoding country])
                | Inr geocodingData \<Rightarrow>
                    (case results geocodingData of
                       None \<Rightarrow>
                         (Inr \<lparr>isError = True, content_text = str ''Country not found''\<rparr>,
                          [OpenMeteoGeocoding country])
                     | Some [] \<Rightarrow>
                         (Inr \<lparr>isError = True, content_text = str ''Country not found''\<rparr>,
                          [OpenMeteoGeocoding country])
                     | Some (entry # _) \<Rightarrow>
                         (let req = OpenMeteoForecast (result_latitude entry)
                                                      (result_longitude entry)
                          in (case forecast_json h (result_latitude entry)
                                                  (result_longitude entry) of
                                Inl thrown \<Rightarrow> Inl thrown
                              | Inr weatherData \<Rightarrow>
                                  (case current_block weatherData of
                                     None \<Rightarrow>
                                       Inr \<lparr>isError = True,
                                            content_text = str ''Weather data not available''\<rparr>
                                   | Some c \<Rightarrow>
                                       Inr \<lparr>isError = False,
                                            content_text = country_text entry c\<rparr>),
                              [OpenMeteoGeocoding country, req])))))"

section \<open>Notions used to state the properties\<close>

text \<open>The characters that the number-to-string conversions produce.\<close>

definition is_digit :: "code_unit \<Rightarrow> bool" where
  "is_digit c = (0x30 \<le> c \<and> c \<le> 0x39)"

definition numeric_char :: "code_unit \<Rightarrow> bool" where
  "numeric_char c = (is_digit c \<or> c \<in> set (str ''.-+e''))"

text \<open>A line of the output that is the bullet of the humidity, or of the wind.\<close>

definition is_humidity_bullet :: "js_string \<Rightarrow> bool" where
  "is_humidity_bullet l = prefix ([bullet] @ str '' Humidity:'') l"

definition is_wind_bullet :: "js_string \<Rightarrow> bool" where
  "is_wind_bullet l = prefix ([bullet] @ str '' Wind Speed:'') l"






text \<open>A request to the weather provider of the country variant.\<close>

definition is_forecast_request :: "request \<Rightarrow> bool" where
  "is_forecast_request req = (case req of OpenMeteoForecast latitude longitude \<Rightarrow> True | _ \<Rightarrow> False)"

section \<open>Sample data\<close>

text \<open>Provider data in the shape of the specification's example, used at concrete inputs.\<close>

definition sample_temperature :: measurements where
  "sample_temperature =
     \<lparr>Metric = \<lparr>Value = 76 / 5, Unit = str ''C''\<rparr>,
      Imperial = \<lparr>Value = 297 / 5, Unit = str ''F''\<rparr>\<rparr>"

definition sample_wind :: accu_wind where
  "sample_wind =
     \<lparr>Speed = \<lparr>Metric = \<lparr>Value = 123 / 10, Unit = str ''km/h''\<rparr>,
               Imperial = \<lparr>Value = 38 / 5, Unit = str ''mi/h''\<rparr>\<rparr>\<rparr>"

definition conditions_without_humidity :: current_conditions where
  "conditions_without_humidity =
     \<lparr>WeatherText = str ''Sunny'', Temperature = sample_temperature,
      RelativeHumidity = None, Wind = Some sample_wind\<rparr>"

definition conditions_bare :: current_conditions where
  "conditions_bare =
     \<lparr>WeatherText = str ''Sunny'', Temperature = sample_temperature,
      RelativeHumidity = None, Wind = None\<rparr>"

definition conditions_full :: current_conditions where
  "conditions_full =
     \<lparr>WeatherText = str ''Sunny'', Temperature = sample_temperature,
      RelativeHumidity = Some 70, Wind = Some sample_wind\<rparr>"

definition conditions_json :: "js_value \<Rightarrow> js_value" where
  "conditions_json humidity =
     Object [(str ''WeatherText'', String (str ''Sunny'')),
             (str ''Temperature'',
                Object [(str ''Metric'', Object [(str ''Value'', Number (76 / 5)),
                                                 (str ''Unit'', String (str ''C''))]),
                        (str ''Imperial'', Object [(str ''Value'', Number (297 / 5)),
                                                   (str ''Unit'', String (str ''F''))])]),
             (str ''RelativeHumidity'', humidity)]"

definition conditions_zero_humidity :: current_conditions where
  "conditions_zero_humidity =
     \<lparr>WeatherText = str ''Sunny'', Temperature = sample_temperature,
      RelativeHumidity = Some 0, Wind = None\<rparr>"



definition request_with_cf :: inbound_request where
  "request_with_cf =
     \<lparr>cf = Object [(str ''latitude'', String (str ''51.5074'')),
                    (str ''longitude'', String (str ''-0.1278''))],
      CF_IPCountry = Some (str ''GB'')\<rparr>"

definition empty_geocoder :: country_host where
  "empty_geocoder =
     \<lparr>geocoding_json = (\<lambda>name. Inr \<lparr>results = None\<rparr>),
      forecast_json = (\<lambda>latitude longitude.
         Inr \<lparr>current_block = Some \<lparr>temperature_2m = 76 / 5, relative_humidity_2m = 70,
                                     wind_speed_10m = 123 / 10, weather_code = 3\<rparr>\<rparr>)\<rparr>"

definition weather_json :: js_value where
  "weather_json =
     Object [(str ''current'',
              Object [(str ''temperature_2m'', Number (76 / 5)),
                      (str ''relative_humidity_2m'', Number 70),
                      (str ''wind_speed_10m'', Number (123 / 10)),
                      (str ''weather_code'', Number 3)])]"

definition london_weather :: weather_result where
  "london_weather =
     \<lparr>current = \<lparr>temperature_2m = 76 / 5, relative_humidity_2m = 70,
                 wind_speed_10m = 123 / 10, weather_code = 3\<rparr>\<rparr>"

definition sample_host :: host where
  "sample_host =
     \<lparr>fetch_json = (\<lambda>req. case req of
          NominatimReverse latitude longitude \<Rightarrow>
            Inr (Object [(str ''address'',
                          Object [(str ''city'', String (str ''London'')),
                                  (str ''country'', String (str ''United Kingdom''))])])
        | OpenMeteoForecast latitude longitude \<Rightarrow> Inr weather_json
        | OpenMeteoGeocoding name \<Rightarrow>
            Inl (Object [(str ''message'', String (str ''fetch failed''))])
        | AccuGeopositionSearch apiKey latitude longitude \<Rightarrow>
            Inr (Object [(str ''Key'', String (str ''328328'')),
                         (str ''LocalizedName'', String (str ''London'')),
                         (str ''Country'',
                          Object [(str ''LocalizedName'', String (str ''United Kingdom''))])])
        | AccuCurrentConditions locationKey apiKey \<Rightarrow>
            Inr (Array [conditions_json (Number 0)])),
      ZodError = (\<lambda>issues. Object [(str ''message'', String (str ''invalid response''))]),
      TypeError = Object [(str ''message'', String (str ''not an object''))]\<rparr>"


section \<open>Properties\<close>

subsection \<open>Characters of numbers\<close>

lemma digit_is_digit: "d < 10 \<Longrightarrow> is_digit (digit d)"
proof -
  assume "d < 10"
  then have "d \<in> {0, 1, 2, 3, 4, 5, 6, 7, 8, 9}" by auto
  then show ?thesis
    by (auto simp: is_digit_def digit_def)
qed

lemma nat_digits_is_digit: "c \<in> set (nat_digits n) \<Longrightarrow> is_digit c"
proof (induction n rule: nat_digits.induct)
  case (1 n)
  show ?case
  proof (cases "n < 10")
    case True
    with "1.prems" show ?thesis
      by (simp add: nat_digits.simps [of n] digit_is_digit)
  next
    case False
    with "1.prems" "1.IH" show ?thesis
      by (auto simp: nat_digits.simps [of n] digit_is_digit)
  qed
qed

lemma frac_digits_is_digit:
  "0 \<le> f \<Longrightarrow> f < 1 \<Longrightarrow> c \<in> set (frac_digits k f) \<Longrightarrow> is_digit c"
proof (induction k arbitrary: f)
  case 0
  then show ?case by simp
next
  case (Suc k)
  let ?d = "\<lfloor>f * 10\<rfloor>"
  have lo: "0 \<le> ?d" using Suc.prems(1) by simp
  have hi: "?d < 10" using Suc.prems(2) by (simp add: floor_less_iff)
  have r0: "0 \<le> f * 10 - of_int ?d" by simp
  have r1: "f * 10 - of_int ?d < 1" by linarith
  have "nat ?d < 10" using lo hi by linarith
  then have d: "is_digit (digit (nat ?d))" by (rule digit_is_digit)
  have step: "c \<in> set (frac_digits k (f * 10 - of_int ?d)) \<Longrightarrow> is_digit c"
    using Suc.IH [OF r0 r1] .
  show ?case
  proof (cases "f = 0")
    case True
    with Suc.prems(3) show ?thesis by simp
  next
    case False
    with Suc.prems(3) have "c = digit (nat ?d) \<or> c \<in> set (frac_digits k (f * 10 - of_int ?d))"
      by simp
    then show ?thesis using d step by blast
  qed
qed

lemma decimal_notation_numeric:
  "c \<in> set (decimal_notation x) \<Longrightarrow> numeric_char c"
proof -
  have f0: "0 \<le> frac x" and f1: "frac x < 1"
    by (simp_all add: frac_lt_1)
  assume "c \<in> set (decimal_notation x)"
  then show ?thesis
    using frac_digits_is_digit [OF f0 f1] nat_digits_is_digit
    by (auto simp: decimal_notation_def numeric_char_def str_def split: if_splits)
qed

lemma exponent_notation_numeric:
  "c \<in> set (exponent_notation x) \<Longrightarrow> numeric_char c"
  using decimal_notation_numeric nat_digits_is_digit
  by (auto simp: exponent_notation_def Let_def numeric_char_def str_def split: if_splits)

lemma Number_toString_numeric:
  "c \<in> set (Number_toString x) \<Longrightarrow> numeric_char c"
  using decimal_notation_numeric exponent_notation_numeric
  by (auto simp: Number_toString_def numeric_char_def str_def is_digit_def split: if_splits)

lemma toFixed1_numeric:
  "c \<in> set (toFixed1 x) \<Longrightarrow> numeric_char c"
proof -
  have pad: "is_digit (digit 0)" by (simp add: digit_is_digit)
  have dig: "\<And>n c. c \<in> set (nat_digits n) \<Longrightarrow> numeric_char c"
    by (simp add: numeric_char_def nat_digits_is_digit)
  have minus: "numeric_char (of_char CHR ''-'')" "numeric_char (of_char CHR ''.'')"
    by (simp_all add: numeric_char_def str_def)
  assume "c \<in> set (toFixed1 x)"
  then show ?thesis
    using Number_toString_numeric dig pad minus
    by (auto simp: toFixed1_def Let_def str_def numeric_char_def
             dest!: in_set_takeD in_set_dropD split: if_splits)
qed

lemma numeric_char_not_LF: "numeric_char c \<Longrightarrow> c \<noteq> LF"
  by (auto simp: numeric_char_def is_digit_def LF_def str_def)

lemma numeric_char_not_white: "numeric_char c \<Longrightarrow> \<not> is_white_space c"
  by (auto simp: numeric_char_def is_digit_def is_white_space_def str_def word_le_nat_alt)

subsection \<open>Trimming and lines of the templates\<close>

lemma split_lines_no_LF: "LF \<notin> set a \<Longrightarrow> split_lines acc a = [rev acc @ a]"
  by (induction a arbitrary: acc) auto

lemma split_lines_append:
  "LF \<notin> set a \<Longrightarrow> split_lines acc (a @ LF # b) = (rev acc @ a) # split_lines [] b"
  by (induction a arbitrary: acc) auto

lemma lines_of_single: "LF \<notin> set a \<Longrightarrow> lines_of a = [a]"
  by (simp add: lines_of_def split_lines_no_LF)

lemma lines_of_append: "LF \<notin> set a \<Longrightarrow> lines_of (a @ [LF] @ b) = a # lines_of b"
  by (simp add: lines_of_def split_lines_append)

lemma trim_end_append_white:
  assumes "\<forall>c\<in>set w. is_white_space c"
  shows "trim_end (xs @ w) = trim_end xs"
proof -
  have "dropWhile is_white_space (rev w @ rev xs) = dropWhile is_white_space (rev xs)"
    by (rule dropWhile_append2) (use assms in simp)
  then show ?thesis
    by (simp add: trim_end_def)
qed

lemma trim_end_append_keep:
  assumes "c \<in> set ys" and "\<not> is_white_space c"
  shows "trim_end (xs @ ys) = xs @ trim_end ys"
proof -
  have "c \<in> set (rev ys)" using assms(1) by simp
  then have "dropWhile is_white_space (rev ys @ rev xs) = dropWhile is_white_space (rev ys) @ rev xs"
    using assms(2) by (rule dropWhile_append1)
  then show ?thesis
    by (simp add: trim_end_def)
qed

lemma set_trim_end: "set (trim_end s) \<subseteq> set s"
proof -
  have "set (dropWhile is_white_space (rev s)) \<subseteq> set (rev s)"
    by (rule set_dropWhileD [THEN subsetI]) 
  then show ?thesis by (simp add: trim_end_def)
qed

lemma bullet_not_white: "\<not> is_white_space bullet"
  by (simp add: is_white_space_def bullet_def)

lemma header_line_start:
  "header_line city country = of_char CHR ''W'' # str ''eather in '' @ city @ str '', '' @ country @ str '':''"
  by (simp add: header_line_def str_def)

lemma trim_template:
  "trim ([LF] @ header_line city country @ m @ conditions_line d @ [LF] @ replicate 8 TAB)
   = header_line city country @ m @ trim_end (conditions_line d)"
proof -
  have w: "\<forall>c\<in>set ([LF] @ replicate 8 TAB). is_white_space c"
    by (simp add: is_white_space_def LF_def TAB_def)
  have b: "bullet \<in> set (conditions_line d)"
    by (simp add: conditions_line_def)
  have "trim_start ([LF] @ header_line city country @ m @ conditions_line d @ [LF] @ replicate 8 TAB)
        = header_line city country @ m @ conditions_line d @ [LF] @ replicate 8 TAB"
    by (simp add: trim_start_def header_line_start is_white_space_def LF_def)
  moreover have "trim_end (((header_line city country @ m) @ conditions_line d) @ ([LF] @ replicate 8 TAB))
        = trim_end ((header_line city country @ m) @ conditions_line d)"
    using w by (rule trim_end_append_white)
  moreover have "trim_end ((header_line city country @ m) @ conditions_line d)
        = (header_line city country @ m) @ trim_end (conditions_line d)"
    using b bullet_not_white by (rule trim_end_append_keep)
  ultimately show ?thesis
    by (simp add: trim_def)
qed

lemma accuweather_text_eq:
  "accuweather_text city country weatherData unit =
     header_line city country @ [LF]
     @ temperature_line (accuweather_temperature weatherData unit) unit @ [LF]
     @ humidity_line weatherData @ [LF]
     @ wind_line weatherData @ [LF]
     @ trim_end (conditions_line (WeatherText weatherData))"
  using trim_template [of city country
      "[LF] @ temperature_line (accuweather_temperature weatherData unit) unit @ [LF]
       @ humidity_line weatherData @ [LF] @ wind_line weatherData @ [LF]"
      "WeatherText weatherData"]
  by (simp add: accuweather_text_def Let_def)

lemma getWeather_text_eq:
  "getWeather_text city country weatherData unit =
     header_line city country @ [LF]
     @ temperature_line (getWeather_temperature weatherData unit) unit @ [LF]
     @ humidity_bullet (relative_humidity_2m (current weatherData)) @ [LF]
     @ wind_bullet (wind_speed_10m (current weatherData)) (str ''km/h'') @ [LF]
     @ trim_end (conditions_line (getWeatherDescription (weather_code (current weatherData))))"
  using trim_template [of city country
      "[LF] @ temperature_line (getWeather_temperature weatherData unit) unit @ [LF]
       @ humidity_bullet (relative_humidity_2m (current weatherData)) @ [LF]
       @ wind_bullet (wind_speed_10m (current weatherData)) (str ''km/h'') @ [LF]"
      "getWeatherDescription (weather_code (current weatherData))"]
  by (simp add: getWeather_text_def Let_def)

lemma LF_header_line:
  "LF \<notin> set city \<Longrightarrow> LF \<notin> set country \<Longrightarrow> LF \<notin> set (header_line city country)"
  by (simp add: header_line_def str_def LF_def)

lemma LF_temperature_line: "LF \<notin> set (temperature_line t unit)"
  using numeric_char_not_LF [OF toFixed1_numeric]
  by (auto simp: temperature_line_def str_def LF_def bullet_def degree_def)

lemma LF_humidity_bullet: "LF \<notin> set (humidity_bullet h)"
  using numeric_char_not_LF [OF Number_toString_numeric]
  by (auto simp: humidity_bullet_def str_def LF_def bullet_def)

lemma LF_wind_bullet: "LF \<notin> set u \<Longrightarrow> LF \<notin> set (wind_bullet s u)"
  using numeric_char_not_LF [OF Number_toString_numeric]
  by (auto simp: wind_bullet_def str_def LF_def bullet_def)

lemma LF_conditions_line: "LF \<notin> set d \<Longrightarrow> LF \<notin> set (trim_end (conditions_line d))"
proof -
  assume "LF \<notin> set d"
  then have "LF \<notin> set (conditions_line d)"
    by (simp add: conditions_line_def str_def LF_def bullet_def)
  then show ?thesis using set_trim_end by blast
qed



lemma trim_end_after_nonwhite:
  assumes "\<not> is_white_space c"
  shows "trim_end ((p @ [c]) @ q) = (p @ [c]) @ trim_end q"
proof (cases "\<forall>x\<in>set q. is_white_space x")
  case True
  then have "trim_end ((p @ [c]) @ q) = trim_end (p @ [c])"
    by (rule trim_end_append_white)
  moreover have "trim_end (p @ [c]) = p @ [c]"
    using assms by (simp add: trim_end_def)
  moreover have "trim_end q = []"
    using True by (simp add: trim_end_def dropWhile_eq_Nil_conv)
  ultimately show ?thesis by simp
next
  case False
  then obtain x where "x \<in> set q" "\<not> is_white_space x" by blast
  then show ?thesis by (rule trim_end_append_keep)
qed

lemma conditions_line_trim:
  "trim_end (conditions_line d) = [bullet] @ str '' Conditions:'' @ trim_end (str '' '' @ d)"
proof -
  have "\<not> is_white_space (of_char CHR '':'')"
    by (simp add: is_white_space_def)
  then have "trim_end (([bullet] @ str '' Conditions'' @ [of_char CHR '':'']) @ (str '' '' @ d))
        = ([bullet] @ str '' Conditions'' @ [of_char CHR '':'']) @ trim_end (str '' '' @ d)"
    using trim_end_after_nonwhite [of "of_char CHR '':''" "[bullet] @ str '' Conditions''" "str '' '' @ d"]
    by simp
  then show ?thesis
    by (simp add: conditions_line_def str_def)
qed

lemma accuweather_lines:
  assumes "LF \<notin> set city" and "LF \<notin> set country" and "LF \<notin> set (WeatherText weatherData)"
    and "\<forall>w. Wind weatherData = Some w \<longrightarrow> LF \<notin> set (Unit (Metric (Speed w)))"
  shows "lines_of (accuweather_text city country weatherData unit) =
           [header_line city country,
            temperature_line (accuweather_temperature weatherData unit) unit,
            humidity_line weatherData,
            wind_line weatherData,
            trim_end (conditions_line (WeatherText weatherData))]"
proof -
  have h: "LF \<notin> set (humidity_line weatherData)"
    by (simp add: humidity_line_def LF_humidity_bullet split: option.splits)
  have w: "LF \<notin> set (wind_line weatherData)"
    using assms(4) by (simp add: wind_line_def LF_wind_bullet split: option.splits)
  show ?thesis
    unfolding accuweather_text_eq
    by (simp only: lines_of_append lines_of_single LF_header_line LF_temperature_line h w
          LF_conditions_line assms not_False_eq_True)
qed

lemma not_humidity_bullet:
  "\<not> is_humidity_bullet (header_line city country)"
  "\<not> is_humidity_bullet (temperature_line t unit)"
  "\<not> is_humidity_bullet (wind_line weatherData)"
  "\<not> is_humidity_bullet (trim_end (conditions_line d))"
  "\<not> is_humidity_bullet []"
  by (simp_all add: is_humidity_bullet_def header_line_start temperature_line_def
        wind_line_def wind_bullet_def conditions_line_trim str_def bullet_def
        split: option.splits)

lemma not_wind_bullet:
  "\<not> is_wind_bullet (header_line city country)"
  "\<not> is_wind_bullet (temperature_line t unit)"
  "\<not> is_wind_bullet (humidity_line weatherData)"
  "\<not> is_wind_bullet (trim_end (conditions_line d))"
  "\<not> is_wind_bullet []"
  by (simp_all add: is_wind_bullet_def header_line_start temperature_line_def
        humidity_line_def humidity_bullet_def conditions_line_trim str_def bullet_def
        split: option.splits)

lemma is_humidity_bullet_humidity_bullet: "is_humidity_bullet (humidity_bullet h)"
  by (simp add: is_humidity_bullet_def humidity_bullet_def str_def)

lemma is_wind_bullet_wind_bullet: "is_wind_bullet (wind_bullet s u)"
  by (simp add: is_wind_bullet_def wind_bullet_def str_def)

subsection \<open>Concrete evaluations\<close>

lemma toFixed1_samples:
  "toFixed1 (297 / 5) = str ''59.4''"
  "toFixed1 (76 / 5) = str ''15.2''"
  "toFixed1 (121 / 8) = str ''15.1''"
  by code_simp+

lemma Number_toString_samples:
  "Number_toString (123 / 10) = str ''12.3''"
  "Number_toString 70 = str ''70''"
  by code_simp+

subsection \<open>Condition codes\<close>

lemma getWeatherDescription_table:
  "getWeatherDescription 0 = str ''Clear sky''"
  "getWeatherDescription 1 = str ''Mainly clear''"
  "getWeatherDescription 2 = str ''Partly cloudy''"
  "getWeatherDescription 3 = str ''Overcast''"
  "getWeatherDescription 45 = str ''Foggy''"
  "getWeatherDescription 48 = str ''Depositing rime fog''"
  "getWeatherDescription 51 = str ''Light drizzle''"
  "getWeatherDescription 53 = str ''Moderate drizzle''"
  "getWeatherDescription 55 = str ''Dense drizzle''"
  "getWeatherDescription 56 = str ''Light freezing drizzle''"
  "getWeatherDescription 57 = str ''Dense freezing drizzle''"
  "getWeatherDescription 61 = str ''Slight rain''"
  "getWeatherDescription 63 = str ''Moderate rain''"
  "getWeatherDescription 65 = str ''Heavy rain''"
  "getWeatherDescription 66 = str ''Light freezing rain''"
  "getWeatherDescription 67 = str ''Heavy freezing rain''"
  "getWeatherDescription 71 = str ''Slight snow fall''"
  "getWeatherDescription 73 = str ''Moderate snow fall''"
  "getWeatherDescription 75 = str ''Heavy snow fall''"
  "getWeatherDescription 77 = str ''Snow grains''"
  "getWeatherDescription 80 = str ''Slight rain showers''"
  "getWeatherDescription 81 = str ''Moderate rain showers''"
  "getWeatherDescription 82 = str ''Violent rain showers''"
  "getWeatherDescription 85 = str ''Slight snow showers''"
  "getWeatherDescription 86 = str ''Heavy snow showers''"
  "getWeatherDescription 95 = str ''Thunderstorm''"
  "getWeatherDescription 96 = str ''Thunderstorm with slight hail''"
  "getWeatherDescription 99 = str ''Thunderstorm with heavy hail''"
  by (simp_all add: getWeatherDescription_def weatherCodes_def str_def)

lemma getWeatherDescription_other:
  fixes code :: js_number
  assumes "code \<notin> fst ` set weatherCodes"
  shows "getWeatherDescription code = str ''Unknown''"
proof -
  have "map_of weatherCodes code = None"
    using assms by (simp add: map_of_eq_None_iff)
  then show ?thesis
    by (simp add: getWeatherDescription_def)
qed

text \<open>
  C3. The code-to-description function is total (a HOL function with no error result:
  a property lookup does not throw). On each of the 28 keys of the table it returns the
  table's string verbatim, and on every other integer it returns \<open>Unknown\<close>.
\<close>

theorem getWeatherDescription_total:
  fixes i :: int
  shows
  "(getWeatherDescription 0 = str ''Clear sky''
    \<and> getWeatherDescription 1 = str ''Mainly clear''
    \<and> getWeatherDescription 2 = str ''Partly cloudy''
    \<and> getWeatherDescription 3 = str ''Overcast''
    \<and> getWeatherDescription 45 = str ''Foggy''
    \<and> getWeatherDescription 48 = str ''Depositing rime fog''
    \<and> getWeatherDescription 51 = str ''Light drizzle''
    \<and> getWeatherDescription 53 = str ''Moderate drizzle''
    \<and> getWeatherDescription 55 = str ''Dense drizzle''
    \<and> getWeatherDescription 56 = str ''Light freezing drizzle''
    \<and> getWeatherDescription 57 = str ''Dense freezing drizzle''
    \<and> getWeatherDescription 61 = str ''Slight rain''
    \<and> getWeatherDescription 63 = str ''Moderate rain''
    \<and> getWeatherDescription 65 = str ''Heavy rain''
    \<and> getWeatherDescription 66 = str ''Light freezing rain''
    \<and> getWeatherDescription 67 = str ''Heavy freezing rain''
    \<and> getWeatherDescription 71 = str ''Slight snow fall''
    \<and> getWeatherDescription 73 = str ''Moderate snow fall''
    \<and> getWeatherDescription 75 = str ''Heavy snow fall''
    \<and> getWeatherDescription 77 = str ''Snow grains''
    \<and> getWeatherDescription 80 = str ''Slight rain showers''
    \<and> getWeatherDescription 81 = str ''Moderate rain showers''
    \<and> getWeatherDescription 82 = str ''Violent rain showers''
    \<and> getWeatherDescription 85 = str ''Slight snow showers''
    \<and> getWeatherDescription 86 = str ''Heavy snow showers''
    \<and> getWeatherDescription 95 = str ''Thunderstorm''
    \<and> getWeatherDescription 96 = str ''Thunderstorm with slight hail''
    \<and> getWeatherDescription 99 = str ''Thunderstorm with heavy hail'')
   \<and> (i \<notin> {0, 1, 2, 3, 45, 48, 51, 53, 55, 56, 57, 61, 63, 65, 66, 67, 71, 73, 75, 77,
            80, 81, 82, 85, 86, 95, 96, 99}
      \<longrightarrow> getWeatherDescription (of_int i) = str ''Unknown'')"
proof -
  have other: "i \<notin> {0, 1, 2, 3, 45, 48, 51, 53, 55, 56, 57, 61, 63, 65, 66, 67, 71, 73, 75, 77,
             80, 81, 82, 85, 86, 95, 96, 99}
      \<longrightarrow> getWeatherDescription (of_int i) = str ''Unknown''"
  proof (rule impI, rule getWeatherDescription_other)
    assume "i \<notin> {0, 1, 2, 3, 45, 48, 51, 53, 55, 56, 57, 61, 63, 65, 66, 67, 71, 73, 75, 77,
             80, 81, 82, 85, 86, 95, 96, 99}"
    then show "(of_int i :: js_number) \<notin> fst ` set weatherCodes"
      by (simp add: weatherCodes_def)
  qed
  show ?thesis
    by (intro conjI getWeatherDescription_table other)
qed

theorem getWeatherDescription_total_witness:
  "(4::int) \<notin> {0, 1, 2, 3, 45, 48, 51, 53, 55, 56, 57, 61, 63, 65, 66, 67, 71, 73, 75, 77,
            80, 81, 82, 85, 86, 95, 96, 99}
   \<and> getWeatherDescription (of_int 4) = str ''Unknown''
   \<and> getWeatherDescription 45 = str ''Foggy''"
  using getWeatherDescription_total [of 4] by simp

subsection \<open>Error normalisation\<close>

text \<open>
  C6. The message extracted from a caught failure: a plain string is returned as it is;
  a (non-null) object carrying a string \<open>message\<close> property yields that property verbatim;
  every other failure yields \<open>Unknown Error\<close>, and exactly then the failure is written to
  the console.
\<close>

theorem getErrorMessage_cases:
  "getErrorMessage error =
     (case error of
        String s \<Rightarrow> (s, [])
      | Object ps \<Rightarrow>
          (case map_of ps (str ''message'') of
             Some (String m) \<Rightarrow> (m, [])
           | _ \<Rightarrow> (str ''Unknown Error'',
                   [[String (str ''Unable to get error message for error''), error]]))
      | _ \<Rightarrow> (str ''Unknown Error'',
              [[String (str ''Unable to get error message for error''), error]]))"
  by (cases error)
     (auto simp: unknown_error_def str_def split: option.splits js_value.splits)

subsection \<open>Optional fields of the AccuWeather output\<close>

lemma both_Inr: "both a b = Inr p \<longleftrightarrow> a = Inr (fst p) \<and> b = Inr (snd p)"
  by (cases a; cases b; cases p) auto

lemma accu_parse_humidity:
  assumes "accuWeatherCurrentConditionsSchema [] response = Inr weatherData"
  shows "z_optional z_number [str ''RelativeHumidity'']
           (get_property response (str ''RelativeHumidity'')) = Inr (RelativeHumidity weatherData)"
  using assms
  by (auto simp: accuWeatherCurrentConditionsSchema_def z_object_def z_key_def both_Inr
           split: js_value.splits sum.splits prod.splits)

text \<open>
  C2, as the code has it. When the city, the country, the weather text and the wind unit
  hold no line feed, the output has exactly five lines: header, temperature, the
  humidity slot, the wind slot and the conditions. An absent humidity (wind) leaves its
  slot empty, so no line of the output is a humidity (wind) bullet, and the empty line
  stays where the bullet would have been. A present wind puts its bullet on the fourth
  line; a present humidity other than zero puts its bullet on the third line.
\<close>

theorem accuweather_optional_fields:
  assumes "LF \<notin> set city" and "LF \<notin> set country" and "LF \<notin> set (WeatherText weatherData)"
    and "\<forall>w. Wind weatherData = Some w \<longrightarrow> LF \<notin> set (Unit (Metric (Speed w)))"
  shows
    "lines_of (accuweather_text city country weatherData unit) =
       [header_line city country,
        temperature_line (accuweather_temperature weatherData unit) unit,
        humidity_line weatherData,
        wind_line weatherData,
        trim_end (conditions_line (WeatherText weatherData))]
     \<and> (RelativeHumidity weatherData = None \<longrightarrow>
          humidity_line weatherData = []
          \<and> (\<forall>l\<in>set (lines_of (accuweather_text city country weatherData unit)).
                \<not> is_humidity_bullet l))
     \<and> (Wind weatherData = None \<longrightarrow>
          wind_line weatherData = []
          \<and> (\<forall>l\<in>set (lines_of (accuweather_text city country weatherData unit)).
                \<not> is_wind_bullet l))
     \<and> (\<forall>h. RelativeHumidity weatherData = Some h \<and> h \<noteq> 0 \<longrightarrow>
          humidity_line weatherData = humidity_bullet h
          \<and> is_humidity_bullet (lines_of (accuweather_text city country weatherData unit) ! 2))
     \<and> (\<forall>w. Wind weatherData = Some w \<longrightarrow>
          wind_line weatherData = wind_bullet (Value (Metric (Speed w))) (Unit (Metric (Speed w)))
          \<and> is_wind_bullet (lines_of (accuweather_text city country weatherData unit) ! 3))"
proof -
  note lines = accuweather_lines [OF assms, of unit]
  have a: "RelativeHumidity weatherData = None \<longrightarrow>
          humidity_line weatherData = []
          \<and> (\<forall>l\<in>set (lines_of (accuweather_text city country weatherData unit)).
                \<not> is_humidity_bullet l)"
    by (simp add: lines not_humidity_bullet humidity_line_def)
  have b: "Wind weatherData = None \<longrightarrow>
          wind_line weatherData = []
          \<and> (\<forall>l\<in>set (lines_of (accuweather_text city country weatherData unit)).
                \<not> is_wind_bullet l)"
    by (simp add: lines not_wind_bullet wind_line_def)
  have c: "\<forall>h. RelativeHumidity weatherData = Some h \<and> h \<noteq> 0 \<longrightarrow>
          humidity_line weatherData = humidity_bullet h
          \<and> is_humidity_bullet (lines_of (accuweather_text city country weatherData unit) ! 2)"
    by (simp add: lines humidity_line_def is_humidity_bullet_humidity_bullet)
  have d: "\<forall>w. Wind weatherData = Some w \<longrightarrow>
          wind_line weatherData = wind_bullet (Value (Metric (Speed w))) (Unit (Metric (Speed w)))
          \<and> is_wind_bullet (lines_of (accuweather_text city country weatherData unit) ! 3)"
    by (simp add: lines wind_line_def is_wind_bullet_wind_bullet)
  show ?thesis
    using lines a b c d by blast
qed



theorem accuweather_optional_fields_witness:
  "RelativeHumidity conditions_bare = None \<and> Wind conditions_bare = None
   \<and> lines_of (accuweather_text (str ''London'') (str ''United Kingdom'') conditions_bare Celsius)
       = [str ''Weather in London, United Kingdom:'',
          [bullet] @ str '' Temperature: 15.2'' @ [degree] @ str ''C'',
          [],
          [],
          [bullet] @ str '' Conditions: Sunny'']
   \<and> RelativeHumidity conditions_full = Some 70 \<and> Wind conditions_full = Some sample_wind
   \<and> is_humidity_bullet
        (lines_of (accuweather_text (str ''London'') (str ''United Kingdom'') conditions_full Celsius) ! 2)
   \<and> is_wind_bullet
        (lines_of (accuweather_text (str ''London'') (str ''United Kingdom'') conditions_full Celsius) ! 3)"
proof -
  have city: "LF \<notin> set (str ''London'')" and country: "LF \<notin> set (str ''United Kingdom'')"
    by (simp_all add: str_def LF_def)
  have bare: "LF \<notin> set (WeatherText conditions_bare)"
      "\<forall>w. Wind conditions_bare = Some w \<longrightarrow> LF \<notin> set (Unit (Metric (Speed w)))"
    by (simp_all add: conditions_bare_def str_def LF_def)
  have full: "LF \<notin> set (WeatherText conditions_full)"
      "\<forall>w. Wind conditions_full = Some w \<longrightarrow> LF \<notin> set (Unit (Metric (Speed w)))"
    by (simp_all add: conditions_full_def sample_wind_def str_def LF_def)
  have h: "RelativeHumidity conditions_bare = None" "Wind conditions_bare = None"
      "RelativeHumidity conditions_full = Some 70" "Wind conditions_full = Some sample_wind"
    by (simp_all add: conditions_bare_def conditions_full_def)
  have "lines_of (accuweather_text (str ''London'') (str ''United Kingdom'') conditions_bare Celsius)
       = [header_line (str ''London'') (str ''United Kingdom''),
          temperature_line (accuweather_temperature conditions_bare Celsius) Celsius,
          [], [], trim_end (conditions_line (WeatherText conditions_bare))]"
    using accuweather_optional_fields [OF city country bare, of Celsius] h by simp
  then have "lines_of (accuweather_text (str ''London'') (str ''United Kingdom'') conditions_bare Celsius)
       = [str ''Weather in London, United Kingdom:'',
          [bullet] @ str '' Temperature: 15.2'' @ [degree] @ str ''C'',
          [],
          [],
          [bullet] @ str '' Conditions: Sunny'']"
    by (simp add: header_line_def temperature_line_def accuweather_temperature_def
          conditions_line_trim conditions_bare_def sample_temperature_def toFixed1_samples)
       (simp add: trim_end_def is_white_space_def str_def)
  moreover have "is_humidity_bullet
        (lines_of (accuweather_text (str ''London'') (str ''United Kingdom'') conditions_full Celsius) ! 2)
     \<and> is_wind_bullet
        (lines_of (accuweather_text (str ''London'') (str ''United Kingdom'') conditions_full Celsius) ! 3)"
    using accuweather_optional_fields [OF city country full, of Celsius] h
    by (simp add: is_humidity_bullet_humidity_bullet is_wind_bullet_wind_bullet)
  ultimately show ?thesis
    using h by simp
qed

text \<open>
  C2 as stated fails: with the humidity absent the third line of the output is empty.
\<close>

theorem accuweather_blank_line_counterexample:
  "RelativeHumidity conditions_without_humidity = None
   \<and> lines_of (accuweather_text (str ''London'') (str ''United Kingdom'')
                conditions_without_humidity Fahrenheit)
       = [str ''Weather in London, United Kingdom:'',
          [bullet] @ str '' Temperature: 59.4'' @ [degree] @ str ''F'',
          [],
          [bullet] @ str '' Wind Speed: 12.3 km/h'',
          [bullet] @ str '' Conditions: Sunny'']"
proof -
  have "lines_of (accuweather_text (str ''London'') (str ''United Kingdom'')
              conditions_without_humidity Fahrenheit) =
           [header_line (str ''London'') (str ''United Kingdom''),
            temperature_line (accuweather_temperature conditions_without_humidity Fahrenheit) Fahrenheit,
            humidity_line conditions_without_humidity,
            wind_line conditions_without_humidity,
            trim_end (conditions_line (WeatherText conditions_without_humidity))]"
    by (rule accuweather_lines)
       (simp_all add: conditions_without_humidity_def sample_wind_def str_def LF_def)
  then have "lines_of (accuweather_text (str ''London'') (str ''United Kingdom'')
                conditions_without_humidity Fahrenheit)
       = [str ''Weather in London, United Kingdom:'',
          [bullet] @ str '' Temperature: 59.4'' @ [degree] @ str ''F'',
          [],
          [bullet] @ str '' Wind Speed: 12.3 km/h'',
          [bullet] @ str '' Conditions: Sunny'']"
    by (simp add: header_line_def temperature_line_def accuweather_temperature_def
          humidity_line_def wind_line_def wind_bullet_def conditions_line_trim
          conditions_without_humidity_def sample_wind_def sample_temperature_def
          toFixed1_samples Number_toString_samples)
       (simp add: trim_end_def is_white_space_def str_def)
  then show ?thesis
    by (simp add: conditions_without_humidity_def)
qed

lemma conditions_json_parse:
  "accuWeatherCurrentConditionsSchema [] (conditions_json (Number 0)) = Inr conditions_zero_humidity"
  by (simp add: accuWeatherCurrentConditionsSchema_def z_object_def z_key_def z_string_def
        z_number_def z_optional_def measurements_shape_def measurement_shape_def
        conditions_json_def conditions_zero_humidity_def sample_temperature_def str_def)

text \<open>
  C9. A response of the provider whose \<open>RelativeHumidity\<close> is the number 0 passes the
  schema with the field present (\<open>Some 0\<close>), and the output has no humidity bullet: the
  slot of the humidity is an empty line, since the template tests the truthiness of the
  value.
\<close>

theorem accuweather_zero_humidity:
  assumes "accuWeatherCurrentConditionsSchema [] response = Inr weatherData"
    and "get_property response (str ''RelativeHumidity'') = Number 0"
    and "LF \<notin> set city" and "LF \<notin> set country" and "LF \<notin> set (WeatherText weatherData)"
    and "\<forall>w. Wind weatherData = Some w \<longrightarrow> LF \<notin> set (Unit (Metric (Speed w)))"
  shows "RelativeHumidity weatherData = Some 0
     \<and> humidity_line weatherData = []
     \<and> lines_of (accuweather_text city country weatherData unit) ! 2 = []
     \<and> (\<forall>l\<in>set (lines_of (accuweather_text city country weatherData unit)).
           \<not> is_humidity_bullet l)"
proof -
  have present: "RelativeHumidity weatherData = Some 0"
    using accu_parse_humidity [OF assms(1)] assms(2)
    by (simp add: z_optional_def z_number_def)
  then have empty: "humidity_line weatherData = []"
    by (simp add: humidity_line_def)
  note lines = accuweather_lines [OF assms(3-6), of unit]
  show ?thesis
    using present empty by (simp add: lines not_humidity_bullet)
qed

theorem accuweather_zero_humidity_witness:
  "accuWeatherCurrentConditionsSchema [] (conditions_json (Number 0)) = Inr conditions_zero_humidity
   \<and> get_property (conditions_json (Number 0)) (str ''RelativeHumidity'') = Number 0
   \<and> RelativeHumidity conditions_zero_humidity = Some 0
   \<and> lines_of (accuweather_text (str ''London'') (str ''United Kingdom'')
                conditions_zero_humidity Celsius) ! 2 = []"
proof -
  note parse = conditions_json_parse
  have property: "get_property (conditions_json (Number 0)) (str ''RelativeHumidity'') = Number 0"
    by (simp add: conditions_json_def str_def)
  have city: "LF \<notin> set (str ''London'')" and country: "LF \<notin> set (str ''United Kingdom'')"
    by (simp_all add: str_def LF_def)
  have rest: "LF \<notin> set (WeatherText conditions_zero_humidity)"
      "\<forall>w. Wind conditions_zero_humidity = Some w \<longrightarrow> LF \<notin> set (Unit (Metric (Speed w)))"
    by (simp_all add: conditions_zero_humidity_def str_def LF_def)
  show ?thesis
    using accuweather_zero_humidity [OF parse property city country rest, of Celsius] parse property
    by simp
qed

subsection \<open>Input resolution of the AccuWeather variant\<close>










subsection \<open>The country variant\<close>

text \<open>
  C5. When the country is resolved and the geocoding response has no \<open>results\<close> or an
  empty list, the result is the error result \<open>Country not found\<close>, and the only request
  made is the geocoding one: the weather provider is not called.
\<close>

theorem country_not_found:
  assumes "resolved_country country store = Some name" and "name \<noteq> []"
    and "geocoding_json h name = Inr geocodingData"
    and "results geocodingData = None \<or> results geocodingData = Some []"
  shows "getWeather_country h store country =
           (Inr \<lparr>isError = True, content_text = str ''Country not found''\<rparr>,
            [OpenMeteoGeocoding name])
         \<and> (\<forall>req\<in>set (snd (getWeather_country h store country)). \<not> is_forecast_request req)"
proof -
  have "getWeather_country h store country =
           (Inr \<lparr>isError = True, content_text = str ''Country not found''\<rparr>,
            [OpenMeteoGeocoding name])"
    using assms
    by (auto simp: getWeather_country_def resolved_country_def Let_def)
  then show ?thesis
    by (simp add: is_forecast_request_def)
qed

theorem country_not_found_witness:
  "resolved_country (Some (str ''Atlantis'')) None = Some (str ''Atlantis'')
   \<and> str ''Atlantis'' \<noteq> []
   \<and> geocoding_json empty_geocoder (str ''Atlantis'') = Inr \<lparr>results = None\<rparr>
   \<and> getWeather_country empty_geocoder None (Some (str ''Atlantis'')) =
           (Inr \<lparr>isError = True, content_text = str ''Country not found''\<rparr>,
            [OpenMeteoGeocoding (str ''Atlantis'')])
   \<and> \<not> is_forecast_request (OpenMeteoGeocoding (str ''Atlantis''))"
proof -
  have a: "resolved_country (Some (str ''Atlantis'')) None = Some (str ''Atlantis'')"
    by (simp add: resolved_country_def)
  have b: "str ''Atlantis'' \<noteq> []"
    by (simp add: str_def)
  have c: "geocoding_json empty_geocoder (str ''Atlantis'') = Inr \<lparr>results = None\<rparr>"
    by (simp add: empty_geocoder_def)
  have d: "results \<lparr>results = None\<rparr> = None \<or> results \<lparr>results = None\<rparr> = Some []"
    by simp
  show ?thesis
    using country_not_found [OF a b c d] a b c by (simp add: is_forecast_request_def)
qed

subsection \<open>The guard after the validation (index.ts)\<close>

lemma getWeather_success:
  assumes "getWeather_data h latitude longitude = (Inr (city, country, weatherData), reqs)"
  shows "getWeather h latitude longitude unit =
           \<lparr>result = \<lparr>isError = False,
                      content_text = getWeather_text city country weatherData unit\<rparr>,
            requests = reqs, console_output = []\<rparr>"
  using assms
  by (simp add: getWeather_def getWeather_body_def catch_error_def current_missing_def
        current_object_def)

lemma getWeather_data_parsed:
  assumes "reverseGeocode h latitude longitude = (Inr (city, country), reqs)"
    and "fetch_json h (OpenMeteoForecast latitude longitude) = Inr weatherJson"
    and "weatherResultSchema [] weatherJson = Inr weatherData"
  shows "getWeather_data h latitude longitude =
           (Inr (city, country, weatherData), reqs @ [OpenMeteoForecast latitude longitude])"
  using assms by (simp add: getWeather_data_def)

lemma weather_parse_current:
  assumes "weatherResultSchema [] weatherJson = Inr weatherData"
  shows "\<exists>ps. get_property weatherJson (str ''current'') = Object ps"
  using assms
  by (auto simp: weatherResultSchema_def z_object_def z_key_def map_sum_def
           split: js_value.splits sum.splits)

lemma getWeather_text_not_guard_message:
  "getWeather_text city country weatherData unit
     \<noteq> str ''Weather data not available or invalid API response''"
  by (simp add: getWeather_text_eq header_line_def str_def)

lemma sample_reverseGeocode:
  "reverseGeocode sample_host latitude longitude =
     (Inr (str ''London'', str ''United Kingdom''), [NominatimReverse latitude longitude])"
  by (simp add: reverseGeocode_def sample_host_def nominatimResponseSchema_def z_object_def
        z_key_def z_optional_def z_string_def address_shape_def or_else_def str_def)

lemma sample_weather_parse: "weatherResultSchema [] weather_json = Inr london_weather"
  by (simp add: weatherResultSchema_def z_object_def z_key_def z_number_def current_shape_def
        weather_json_def london_weather_def str_def)

text \<open>
  C10. Whenever the weather response passes \<open>weatherResultSchema\<close>, its \<open>current\<close> is an
  object, the guard \<open>!weatherData?.current\<close> is false, and the handler returns the
  formatted text and not the message of the guard.
\<close>

theorem current_guard_unreachable:
  assumes "reverseGeocode h latitude longitude = (Inr (city, country), reqs)"
    and "fetch_json h (OpenMeteoForecast latitude longitude) = Inr weatherJson"
    and "weatherResultSchema [] weatherJson = Inr weatherData"
  shows "(\<exists>ps. get_property weatherJson (str ''current'') = Object ps)
     \<and> \<not> current_missing weatherData
     \<and> getWeather h latitude longitude unit =
           \<lparr>result = \<lparr>isError = False,
                      content_text = getWeather_text city country weatherData unit\<rparr>,
            requests = reqs @ [OpenMeteoForecast latitude longitude], console_output = []\<rparr>
     \<and> content_text (result (getWeather h latitude longitude unit))
           \<noteq> str ''Weather data not available or invalid API response''"
proof -
  note run = getWeather_success [OF getWeather_data_parsed [OF assms], of unit]
  have "\<not> current_missing weatherData"
    by (simp add: current_missing_def current_object_def)
  then show ?thesis
    unfolding run
    using weather_parse_current [OF assms(3)] getWeather_text_not_guard_message
    by simp
qed

theorem current_guard_unreachable_witness:
  "reverseGeocode sample_host (51 :: js_number) 0 =
     (Inr (str ''London'', str ''United Kingdom''), [NominatimReverse 51 0])
   \<and> fetch_json sample_host (OpenMeteoForecast 51 0) = Inr weather_json
   \<and> weatherResultSchema [] weather_json = Inr london_weather
   \<and> \<not> current_missing london_weather
   \<and> getWeather sample_host 51 0 Celsius =
           \<lparr>result = \<lparr>isError = False,
                      content_text = getWeather_text (str ''London'') (str ''United Kingdom'')
                                       london_weather Celsius\<rparr>,
            requests = [NominatimReverse 51 0, OpenMeteoForecast 51 0], console_output = []\<rparr>"
proof -
  have f: "fetch_json sample_host (OpenMeteoForecast 51 0) = Inr weather_json"
    by (simp add: sample_host_def)
  show ?thesis
    using current_guard_unreachable [OF sample_reverseGeocode f sample_weather_parse, of Celsius]
      sample_reverseGeocode [of 51 0] f sample_weather_parse
    by simp
qed

subsection \<open>Determinism of the formatting step\<close>

lemma accuweather_success:
  assumes "accuweather_data h env store latitude longitude = (Inr (city, country, weatherData), reqs)"
  shows "getWeather_accuweather h env store latitude longitude unit =
           \<lparr>result = \<lparr>isError = False,
                      content_text = accuweather_text city country weatherData unit\<rparr>,
            requests = reqs, console_output = []\<rparr>"
  using assms
  by (simp add: getWeather_accuweather_def accuweather_body_def catch_error_def)

lemma sample_getWeather_data:
  "getWeather_data sample_host latitude longitude =
     (Inr (str ''London'', str ''United Kingdom'', london_weather),
      [NominatimReverse latitude longitude, OpenMeteoForecast latitude longitude])"
proof -
  have "fetch_json sample_host (OpenMeteoForecast latitude longitude) = Inr weather_json"
    by (simp add: sample_host_def)
  then show ?thesis
    using getWeather_data_parsed [OF sample_reverseGeocode _ sample_weather_parse] by simp
qed

lemma sample_getLocationKey:
  "getLocationKey sample_host latitude longitude apiKey =
     (Inr (str ''328328'', str ''London'', str ''United Kingdom''),
      [AccuGeopositionSearch apiKey latitude longitude])"
  by (simp add: getLocationKey_def sample_host_def accuWeatherLocationSchema_def z_object_def
        z_key_def z_string_def str_def)

lemma sample_getCurrentConditions:
  "getCurrentConditions sample_host locationKey apiKey =
     (Inr conditions_zero_humidity, [AccuCurrentConditions locationKey apiKey])"
proof -
  have "fetch_json sample_host (AccuCurrentConditions locationKey apiKey)
          = Inr (Array [conditions_json (Number 0)])"
    by (simp add: sample_host_def)
  then show ?thesis
    by (simp add: getCurrentConditions_def first_element_def conditions_json_parse)
qed

lemma sample_accuweather_data:
  assumes "apiKey \<noteq> []"
  shows "accuweather_data sample_host \<lparr>ACCUWEATHER_API_KEY = Some apiKey\<rparr> store
           (Some latitude) (Some longitude) =
     (Inr (str ''London'', str ''United Kingdom'', conditions_zero_humidity),
      [AccuGeopositionSearch apiKey latitude longitude,
       AccuCurrentConditions (str ''328328'') apiKey])"
  using assms
  by (simp add: accuweather_data_def coordinate_def as_number_def sample_getLocationKey
        sample_getCurrentConditions)

text \<open>
  C8. Two invocations that reach the formatting step with the same location, the same
  observation and the same unit return the same text, whatever the hosts, the
  coordinates, the API keys and the ambient requests of the two invocations are: the
  text is a function of the triple alone. This holds for the handler of index.ts and for
  the AccuWeather handler.
\<close>

theorem formatting_deterministic:
  assumes "fst (getWeather_data h1 latitude1 longitude1) = Inr (city, country, weatherData)"
    and "fst (getWeather_data h2 latitude2 longitude2) = Inr (city, country, weatherData)"
    and "fst (accuweather_data g1 env1 store1 lat1 long1) = Inr (place, land, conditions)"
    and "fst (accuweather_data g2 env2 store2 lat2 long2) = Inr (place, land, conditions)"
  shows "content_text (result (getWeather h1 latitude1 longitude1 unit))
           = content_text (result (getWeather h2 latitude2 longitude2 unit))
     \<and> content_text (result (getWeather h1 latitude1 longitude1 unit))
           = getWeather_text city country weatherData unit
     \<and> content_text (result (getWeather_accuweather g1 env1 store1 lat1 long1 unit))
           = content_text (result (getWeather_accuweather g2 env2 store2 lat2 long2 unit))
     \<and> content_text (result (getWeather_accuweather g1 env1 store1 lat1 long1 unit))
           = accuweather_text place land conditions unit"
proof -
  have a: "content_text (result (getWeather h latitude longitude unit))
             = getWeather_text city country weatherData unit"
    if "fst (getWeather_data h latitude longitude) = Inr (city, country, weatherData)"
    for h latitude longitude
    using that getWeather_success [of h latitude longitude city country weatherData
                                      "snd (getWeather_data h latitude longitude)" unit]
    by (cases "getWeather_data h latitude longitude") simp
  have b: "content_text (result (getWeather_accuweather g env store lat long unit))
             = accuweather_text place land conditions unit"
    if "fst (accuweather_data g env store lat long) = Inr (place, land, conditions)"
    for g env store lat long
    using that accuweather_success [of g env store lat long place land conditions
                                      "snd (accuweather_data g env store lat long)" unit]
    by (cases "accuweather_data g env store lat long") simp
  show ?thesis
    by (simp add: a [OF assms(1)] a [OF assms(2)] b [OF assms(3)] b [OF assms(4)])
qed

theorem formatting_deterministic_witness:
  "fst (getWeather_data sample_host 51 0)
     = Inr (str ''London'', str ''United Kingdom'', london_weather)
   \<and> fst (getWeather_data sample_host 48 2)
     = Inr (str ''London'', str ''United Kingdom'', london_weather)
   \<and> fst (accuweather_data sample_host \<lparr>ACCUWEATHER_API_KEY = Some (str ''first'')\<rparr> None
            (Some 51) (Some 0))
     = Inr (str ''London'', str ''United Kingdom'', conditions_zero_humidity)
   \<and> fst (accuweather_data sample_host \<lparr>ACCUWEATHER_API_KEY = Some (str ''second'')\<rparr>
            (Some request_with_cf) (Some 48) (Some 2))
     = Inr (str ''London'', str ''United Kingdom'', conditions_zero_humidity)
   \<and> content_text (result (getWeather sample_host 51 0 Celsius))
     = content_text (result (getWeather sample_host 48 2 Celsius))
   \<and> content_text (result (getWeather_accuweather sample_host
         \<lparr>ACCUWEATHER_API_KEY = Some (str ''first'')\<rparr> None (Some 51) (Some 0) Celsius))
     = content_text (result (getWeather_accuweather sample_host
         \<lparr>ACCUWEATHER_API_KEY = Some (str ''second'')\<rparr> (Some request_with_cf)
         (Some 48) (Some 2) Celsius))"
proof -
  have a1: "fst (getWeather_data sample_host 51 0)
              = Inr (str ''London'', str ''United Kingdom'', london_weather)"
    and a2: "fst (getWeather_data sample_host 48 2)
              = Inr (str ''London'', str ''United Kingdom'', london_weather)"
    by (simp_all add: sample_getWeather_data)
  have k: "str ''first'' \<noteq> []" "str ''second'' \<noteq> []"
    by (simp_all add: str_def)
  have b1: "fst (accuweather_data sample_host \<lparr>ACCUWEATHER_API_KEY = Some (str ''first'')\<rparr> None
            (Some 51) (Some 0))
     = Inr (str ''London'', str ''United Kingdom'', conditions_zero_humidity)"
    by (simp add: sample_accuweather_data [OF k(1)])
  have b2: "fst (accuweather_data sample_host \<lparr>ACCUWEATHER_API_KEY = Some (str ''second'')\<rparr>
            (Some request_with_cf) (Some 48) (Some 2))
     = Inr (str ''London'', str ''United Kingdom'', conditions_zero_humidity)"
    by (simp add: sample_accuweather_data [OF k(2)])
  show ?thesis
    using formatting_deterministic [OF a1 a2 b1 b2, of Celsius] a1 a2 b1 b2
    by simp
qed

subsection \<open>The temperature shown\<close>



















subsection \<open>The example of the specification\<close>

lemma LF_getWeatherDescription: "LF \<notin> set (getWeatherDescription code)"
proof (cases "map_of weatherCodes code")
  case None
  then show ?thesis
    by (simp add: getWeatherDescription_def str_def LF_def)
next
  case (Some d)
  then have "(code, d) \<in> set weatherCodes"
    by (rule map_of_SomeD)
  then have "LF \<notin> set d"
    by (auto simp: weatherCodes_def str_def LF_def)
  then show ?thesis
    using Some by (simp add: getWeatherDescription_def str_def LF_def)
qed

lemma getWeather_lines:
  assumes "LF \<notin> set city" and "LF \<notin> set country"
  shows "lines_of (getWeather_text city country weatherData unit) =
           [header_line city country,
            temperature_line (getWeather_temperature weatherData unit) unit,
            humidity_bullet (relative_humidity_2m (current weatherData)),
            wind_bullet (wind_speed_10m (current weatherData)) (str ''km/h''),
            trim_end (conditions_line (getWeatherDescription (weather_code (current weatherData))))]"
proof -
  have u: "LF \<notin> set (str ''km/h'')"
    by (simp add: str_def LF_def)
  show ?thesis
    unfolding getWeather_text_eq
    by (simp only: lines_of_append lines_of_single LF_header_line LF_temperature_line
          LF_humidity_bullet LF_wind_bullet LF_conditions_line LF_getWeatherDescription
          assms u not_False_eq_True)
qed

text \<open>
  The example of the specification: London, 15.2 degrees, humidity 70, wind 12.3 and
  condition code 3, in the unit celsius.
\<close>

lemma getWeather_example:
  "getWeather sample_host (515074 / 10000) (- 1278 / 10000) Celsius =
     \<lparr>result = \<lparr>isError = False,
                content_text = getWeather_text (str ''London'') (str ''United Kingdom'')
                                 london_weather Celsius\<rparr>,
      requests = [NominatimReverse (515074 / 10000) (- 1278 / 10000),
                  OpenMeteoForecast (515074 / 10000) (- 1278 / 10000)],
      console_output = []\<rparr>"
  "lines_of (getWeather_text (str ''London'') (str ''United Kingdom'') london_weather Celsius) =
     [str ''Weather in London, United Kingdom:'',
      [bullet] @ str '' Temperature: 15.2'' @ [degree] @ str ''C'',
      [bullet] @ str '' Humidity: 70%'',
      [bullet] @ str '' Wind Speed: 12.3 km/h'',
      [bullet] @ str '' Conditions: Overcast'']"
proof -
  show "getWeather sample_host (515074 / 10000) (- 1278 / 10000) Celsius =
     \<lparr>result = \<lparr>isError = False,
                content_text = getWeather_text (str ''London'') (str ''United Kingdom'')
                                 london_weather Celsius\<rparr>,
      requests = [NominatimReverse (515074 / 10000) (- 1278 / 10000),
                  OpenMeteoForecast (515074 / 10000) (- 1278 / 10000)],
      console_output = []\<rparr>"
    by (rule getWeather_success) (rule sample_getWeather_data)
  have city: "LF \<notin> set (str ''London'')" and country: "LF \<notin> set (str ''United Kingdom'')"
    by (simp_all add: str_def LF_def)
  show "lines_of (getWeather_text (str ''London'') (str ''United Kingdom'') london_weather Celsius) =
     [str ''Weather in London, United Kingdom:'',
      [bullet] @ str '' Temperature: 15.2'' @ [degree] @ str ''C'',
      [bullet] @ str '' Humidity: 70%'',
      [bullet] @ str '' Wind Speed: 12.3 km/h'',
      [bullet] @ str '' Conditions: Overcast'']"
    unfolding getWeather_lines [OF city country]
    by (simp add: header_line_def temperature_line_def getWeather_temperature_def
          humidity_bullet_def wind_bullet_def conditions_line_trim london_weather_def
          toFixed1_samples Number_toString_samples getWeatherDescription_table)
       (simp add: trim_end_def is_white_space_def str_def)
qed

end
